theory Spec2Isabelle
  imports Complex_Main "HOL-Library.Char_ord" "HOL-Library.List_Lexorder"
begin

section \<open>The video job orchestrator of \<^verbatim>\<open>server/server.py\<close>\<close>

text \<open>
  The service keeps three pieces of process-wide state: the dictionary
  \<^verbatim>\<open>processing_status\<close>, the placement of the pre-loaded \<^verbatim>\<open>inspyrenet_model\<close>
  (CPU or accelerator), and the working directory \<^verbatim>\<open>temp_videos\<close> on disk.
  The embedding passes them around explicitly. Everything the code obtains from
  outside (subprocess results, the segmentation backends, the image library) is a
  field of an environment record, so a theorem quantified over the environment
  covers every behaviour of those collaborators.

  Assumptions of the model, stated once:
  \<^item> strings are ASCII, and the bytes a subprocess prints are taken as already decoded;
  \<^item> logging has no effect;
  \<^item> the file system is ideal: \<^verbatim>\<open>os.listdir\<close>, \<^verbatim>\<open>os.remove\<close> and \<^verbatim>\<open>os.rmdir\<close> fail only
    when the entry they name is absent (or, for \<^verbatim>\<open>rmdir\<close>, not empty);
  \<^item> \<^verbatim>\<open>process_video\<close> and the janitor's sweep are each modelled as one sequential run;
    what other tasks may do in between is an explicit argument where a claim needs it.
\<close>

subsection \<open>Python values\<close>

datatype exn =
    ValueError string
  | UnboundLocalError string
  | FileNotFoundError string
  | OSError string
  | KeyError string
  | RuntimeError string

definition squote :: char where
  "squote = CHR 0x27"

definition dquote :: char where
  "dquote = CHR 0x22"

definition backslash :: char where
  "backslash = CHR 0x5C"

text \<open>\<^verbatim>\<open>str(e)\<close>: the exception's description. For \<^verbatim>\<open>UnboundLocalError\<close> the
  constructor carries the variable's name, for \<^verbatim>\<open>KeyError\<close> the key.\<close>

fun str_exn :: "exn \<Rightarrow> string" where
  "str_exn (ValueError m) = m"
| "str_exn (UnboundLocalError v) =
     ''cannot access local variable '' @ [squote] @ v @ [squote] @
     '' where it is not associated with a value''"
| "str_exn (FileNotFoundError p) =
     ''[Errno 2] No such file or directory: '' @ [squote] @ p @ [squote]"
| "str_exn (OSError m) = m"
| "str_exn (KeyError k) = [squote] @ k @ [squote]"
| "str_exn (RuntimeError m) = m"

text \<open>A JSON-like value stored in a status dictionary. \<^verbatim>\<open>0\<close> and \<^verbatim>\<open>100\<close> are
  Python ints; \<^verbatim>\<open>(i + 1) / total_frames * 100\<close> is a float, kept here as the
  exact rational (no claim depends on its rounding).\<close>

datatype jval = JStr string | JInt int | JFloat rat

text \<open>A dictionary literal, in the order its keys are written.\<close>

type_synonym jdict = "(string \<times> jval) list"

type_synonym image = string

subsection \<open>\<^verbatim>\<open>os.path.join\<close>, \<^verbatim>\<open>str.endswith\<close>, \<^verbatim>\<open>str.strip\<close>, \<^verbatim>\<open>int\<close>, \<^verbatim>\<open>repr\<close>\<close>

definition path_join :: "string \<Rightarrow> string \<Rightarrow> string" where
  "path_join a b =
     (if b \<noteq> [] \<and> hd b = CHR ''/'' then b
      else if a = [] then b
      else if last a = CHR ''/'' then a @ b
      else a @ ''/'' @ b)"

definition endswith :: "string \<Rightarrow> string \<Rightarrow> bool" where
  "endswith s suf = (length suf \<le> length s \<and> drop (length s - length suf) s = suf)"

definition is_space :: "char \<Rightarrow> bool" where
  "is_space c = (c \<in> set [CHR 0x20, CHR 0x09, CHR 0x0A, CHR 0x0B, CHR 0x0C, CHR 0x0D,
                           CHR 0x1C, CHR 0x1D, CHR 0x1E, CHR 0x1F])"

definition strip :: "string \<Rightarrow> string" where
  "strip s = rev (dropWhile is_space (rev (dropWhile is_space s)))"

definition digit_of :: "char \<Rightarrow> int option" where
  "digit_of c = map_of (zip ''0123456789'' [0, 1, 2, 3, 4, 5, 6, 7, 8, 9]) c"

text \<open>Digits after the first one; a single underscore may stand between two digits.\<close>

fun py_digits :: "int \<Rightarrow> string \<Rightarrow> int option" where
  "py_digits acc [] = Some acc"
| "py_digits acc [c] =
     (case digit_of c of None \<Rightarrow> None | Some v \<Rightarrow> Some (acc * 10 + v))"
| "py_digits acc (c # d # ds) =
     (if c = CHR ''_'' then
        (case digit_of d of None \<Rightarrow> None | Some v \<Rightarrow> py_digits (acc * 10 + v) ds)
      else
        (case digit_of c of None \<Rightarrow> None | Some v \<Rightarrow> py_digits (acc * 10 + v) (d # ds)))"

definition py_nat :: "string \<Rightarrow> int option" where
  "py_nat s =
     (case s of [] \<Rightarrow> None
      | c # cs \<Rightarrow> (case digit_of c of None \<Rightarrow> None | Some v \<Rightarrow> py_digits v cs))"

text \<open>\<^verbatim>\<open>int(s)\<close> in base 10: surrounding whitespace, an optional sign, digits.
  \<open>None\<close> stands for the \<^verbatim>\<open>ValueError\<close>.\<close>

definition py_int :: "string \<Rightarrow> int option" where
  "py_int s =
     (case strip s of [] \<Rightarrow> None
      | c # cs \<Rightarrow>
          if c = CHR ''-'' then map_option uminus (py_nat cs)
          else if c = CHR ''+'' then py_nat cs
          else py_nat (c # cs))"

definition hex_digit :: "nat \<Rightarrow> char" where
  "hex_digit n = ''0123456789abcdef'' ! (n mod 16)"

definition repr_char :: "char \<Rightarrow> char \<Rightarrow> string" where
  "repr_char q c =
     (if c = backslash then [backslash, backslash]
      else if c = q then [backslash, q]
      else if c = CHR 0x09 then [backslash, CHR ''t'']
      else if c = CHR 0x0A then [backslash, CHR ''n'']
      else if c = CHR 0x0D then [backslash, CHR ''r'']
      else if (of_char c :: nat) < 32 \<or> (of_char c :: nat) = 127 then
        [backslash, CHR ''x'', hex_digit (of_char c div 16), hex_digit (of_char c)]
      else [c])"

definition py_repr :: "string \<Rightarrow> string" where
  "py_repr s =
     (let q = (if squote \<in> set s \<and> dquote \<notin> set s then dquote else squote)
      in [q] @ concat (map (repr_char q) s) @ [q])"

definition int_literal_error :: "string \<Rightarrow> exn" where
  "int_literal_error s = ValueError (''invalid literal for int() with base 10: '' @ py_repr s)"

subsection \<open>State and environment\<close>

text \<open>What the run does that is visible from outside, in order: device moves,
  subprocess launches, backend calls and writes to the registry.\<close>

datatype event =
    Cuda
  | Cpu
  | Probe string
  | Makedirs string
  | Extract string string
  | Backend string string
  | Encode string
  | Status string jdict

text \<open>
  \<open>files\<close>: the regular files directly under \<^verbatim>\<open>temp_videos\<close>, by path.
  \<open>frame_dirs\<close>: the directories under \<^verbatim>\<open>temp_videos/frames\<close>, by path, each with its
  entries (file name and content).
  \<open>tasks\<close>: the calls handed to \<^verbatim>\<open>BackgroundTasks.add_task\<close> and not yet run.
\<close>

record state =
  processing_status :: "string \<rightharpoonup> jdict"
  on_gpu :: bool
  files :: "string set"
  frame_dirs :: "string \<rightharpoonup> (string \<times> image) list"
  tasks :: "(string \<times> string \<times> string) list"
  log :: "event list"

text \<open>The result of \<^verbatim>\<open>asyncio.create_subprocess_exec\<close> followed by
  \<^verbatim>\<open>communicate\<close>: the launch raises, or the process exits with a return code.\<close>

datatype 'a proc = ExecFails exn | Exited int 'a

text \<open>
  What the collaborators of one run of \<^verbatim>\<open>process_video\<close> do:
  \<open>cuda_fails\<close>: the exception of \<^verbatim>\<open>inspyrenet_model.model.cuda()\<close>, if it raises;
  \<open>probe_run\<close>: the run of \<^verbatim>\<open>ffprobe\<close>, with its decoded standard output;
  \<open>makedirs_fails\<close>: the exception of \<^verbatim>\<open>os.makedirs\<close>, if it raises;
  \<open>extract_run\<close>: the run of the extracting \<^verbatim>\<open>ffmpeg\<close>, with the files it wrote into the
  frame directory;
  \<open>open_fails\<close>: the exception of \<^verbatim>\<open>Image.open(frame_path).convert('RGB')\<close>, by path;
  \<open>backend\<close>: the segmentation backend selected by the method, on an image;
  \<open>save_fails\<close>: the exception of \<^verbatim>\<open>processed_frame.save\<close>, by path;
  \<open>encode_run\<close>: the run of the encoding \<^verbatim>\<open>ffmpeg\<close>, and whether it left a file at the
  output path.
\<close>

record env =
  cuda_fails :: "exn option"
  probe_run :: "string proc"
  makedirs_fails :: "exn option"
  extract_run :: "((string \<times> image) list) proc"
  open_fails :: "string \<Rightarrow> exn option"
  backend :: "string \<Rightarrow> image \<Rightarrow> exn + image"
  save_fails :: "string \<Rightarrow> exn option"
  encode_run :: "bool proc"

definition TEMP_VIDEOS_DIR :: string where
  "TEMP_VIDEOS_DIR = ''temp_videos''"

definition FRAMES_DIR :: string where
  "FRAMES_DIR = path_join TEMP_VIDEOS_DIR ''frames''"

definition emit :: "event \<Rightarrow> state \<Rightarrow> state" where
  "emit ev s = s\<lparr>log := log s @ [ev]\<rparr>"

text \<open>\<^verbatim>\<open>processing_status[video_id] = d\<close>\<close>

definition set_status :: "string \<Rightarrow> jdict \<Rightarrow> state \<Rightarrow> state" where
  "set_status video_id d s =
     s\<lparr>processing_status := (processing_status s)(video_id \<mapsto> d),
       log := log s @ [Status video_id d]\<rparr>"

definition model_cuda :: "state \<Rightarrow> state" where
  "model_cuda s = emit Cuda (s\<lparr>on_gpu := True\<rparr>)"

text \<open>\<^verbatim>\<open>inspyrenet_model.model.cpu(); torch.cuda.empty_cache()\<close>\<close>

definition model_cpu :: "state \<Rightarrow> state" where
  "model_cpu s = emit Cpu (s\<lparr>on_gpu := False\<rparr>)"

subsection \<open>File-system operations on a frame directory\<close>

text \<open>A directory's entries are an association list read as a map: a name is listed
  once, and removing it removes every binding of it.\<close>

definition os_listdir :: "string \<Rightarrow> state \<Rightarrow> exn + string list" where
  "os_listdir d s =
     (case frame_dirs s d of None \<Rightarrow> Inl (FileNotFoundError d)
      | Some entries \<Rightarrow> Inr (remdups (map fst entries)))"

text \<open>\<^verbatim>\<open>os.makedirs(d, exist_ok=True)\<close>\<close>

definition os_makedirs :: "string \<Rightarrow> state \<Rightarrow> state" where
  "os_makedirs d s =
     (case frame_dirs s d of None \<Rightarrow> s\<lparr>frame_dirs := (frame_dirs s)(d \<mapsto> [])\<rparr>
      | Some entries \<Rightarrow> s)"

text \<open>Writing a file into a directory: a new entry, or new content for an old one.\<close>

fun write_entry :: "string \<Rightarrow> image \<Rightarrow> (string \<times> image) list \<Rightarrow> (string \<times> image) list" where
  "write_entry f img [] = [(f, img)]"
| "write_entry f img ((g, old) # rest) =
     (if g = f then (g, img) # rest else (g, old) # write_entry f img rest)"

definition write_frame :: "string \<Rightarrow> string \<Rightarrow> image \<Rightarrow> state \<Rightarrow> exn + state" where
  "write_frame d f img s =
     (case frame_dirs s d of None \<Rightarrow> Inl (FileNotFoundError (path_join d f))
      | Some entries \<Rightarrow> Inr (s\<lparr>frame_dirs := (frame_dirs s)(d \<mapsto> write_entry f img entries)\<rparr>))"

definition write_frames :: "string \<Rightarrow> (string \<times> image) list \<Rightarrow> state \<Rightarrow> state" where
  "write_frames d written s =
     (case frame_dirs s d of None \<Rightarrow> s
      | Some entries \<Rightarrow>
          s\<lparr>frame_dirs :=
              (frame_dirs s)(d \<mapsto> foldl (\<lambda>es (f, img). write_entry f img es) entries written)\<rparr>)"

definition read_frame :: "string \<Rightarrow> string \<Rightarrow> state \<Rightarrow> exn + image" where
  "read_frame d f s =
     (case frame_dirs s d of None \<Rightarrow> Inl (FileNotFoundError (path_join d f))
      | Some entries \<Rightarrow>
          (case map_of entries f of None \<Rightarrow> Inl (FileNotFoundError (path_join d f))
           | Some img \<Rightarrow> Inr img))"

text \<open>\<^verbatim>\<open>os.remove(os.path.join(d, f))\<close>\<close>

definition os_remove :: "string \<Rightarrow> string \<Rightarrow> state \<Rightarrow> exn + state" where
  "os_remove d f s =
     (case frame_dirs s d of None \<Rightarrow> Inl (FileNotFoundError (path_join d f))
      | Some entries \<Rightarrow>
          if f \<in> fst ` set entries
          then Inr (s\<lparr>frame_dirs := (frame_dirs s)(d \<mapsto> filter (\<lambda>e. fst e \<noteq> f) entries)\<rparr>)
          else Inl (FileNotFoundError (path_join d f)))"

definition os_rmdir :: "string \<Rightarrow> state \<Rightarrow> exn + state" where
  "os_rmdir d s =
     (case frame_dirs s d of None \<Rightarrow> Inl (FileNotFoundError d)
      | Some entries \<Rightarrow>
          if entries = [] then Inr (s\<lparr>frame_dirs := (frame_dirs s)(d := None)\<rparr>)
          else Inl (OSError (''[Errno 39] Directory not empty: '' @ [squote] @ d @ [squote])))"

subsection \<open>\<^verbatim>\<open>process_frame\<close>\<close>

definition rembg_methods :: "string list" where
  "rembg_methods = [''u2net'', ''u2net_human_seg'', ''isnet-general-use'', ''isnet-anime'']"

text \<open>One call of a segmentation backend through \<^verbatim>\<open>asyncio.to_thread\<close>.\<close>

definition call_backend :: "env \<Rightarrow> string \<Rightarrow> string \<Rightarrow> image \<Rightarrow> state \<Rightarrow> (exn + image) \<times> state" where
  "call_backend ev method frame_path img s =
     (backend ev method img, emit (Backend method frame_path) s)"

text \<open>\<^verbatim>\<open>process_frame(frame_path, method)\<close> with \<open>frame_path = path_join d f\<close>:
  the image is opened and converted first, the method is looked at afterwards.\<close>

definition process_frame :: "env \<Rightarrow> string \<Rightarrow> string \<Rightarrow> string \<Rightarrow> state \<Rightarrow> (exn + image) \<times> state" where
  "process_frame ev d f method s =
     (case read_frame d f s of Inl e \<Rightarrow> (Inl e, s)
      | Inr img \<Rightarrow>
          (case open_fails ev (path_join d f) of Some e \<Rightarrow> (Inl e, s)
           | None \<Rightarrow>
               if method = ''bria'' then call_backend ev method (path_join d f) img s
               else if method = ''inspyrenet'' then call_backend ev method (path_join d f) img s
               else if method \<in> set rembg_methods then call_backend ev method (path_join d f) img s
               else (Inl (ValueError ''Invalid method''), s)))"

text \<open>\<^verbatim>\<open>processed_frame.save(frame_path, format='PNG')\<close>\<close>

definition save_frame :: "env \<Rightarrow> string \<Rightarrow> string \<Rightarrow> image \<Rightarrow> state \<Rightarrow> exn + state" where
  "save_frame ev d f img s =
     (case save_fails ev (path_join d f) of Some e \<Rightarrow> Inl e
      | None \<Rightarrow> write_frame d f img s)"

subsection \<open>\<^verbatim>\<open>process_video\<close>\<close>

text \<open>How the \<^verbatim>\<open>try\<close> suite ends: it returns (or runs to its end), or it raises.\<close>

datatype flow = Returns | Raises exn

definition rec_stage :: "int \<Rightarrow> string \<Rightarrow> jdict" where
  "rec_stage p m = [(''status'', JStr ''processing''), (''progress'', JInt p), (''message'', JStr m)]"

definition rec_progress :: "rat \<Rightarrow> jdict" where
  "rec_progress p = [(''status'', JStr ''processing''), (''progress'', JFloat p)]"

definition rec_error :: "string \<Rightarrow> jdict" where
  "rec_error m = [(''status'', JStr ''error''), (''message'', JStr m)]"

definition rec_completed :: "string \<Rightarrow> jdict" where
  "rec_completed output_path = [(''status'', JStr ''completed''), (''output_path'', JStr output_path)]"

text \<open>Lines 209 to 235: encoding. The second component of \<open>Exited\<close> says whether
  \<^verbatim>\<open>ffmpeg\<close> left a file at \<open>output_path\<close>.\<close>

definition encode_stage :: "env \<Rightarrow> string \<Rightarrow> state \<Rightarrow> flow \<times> state" where
  "encode_stage ev video_id s =
     (let s1 = set_status video_id (rec_stage 100 ''Encoding video'') s;
          output_path = path_join TEMP_VIDEOS_DIR (''output_'' @ video_id @ ''.webm'');
          s2 = emit (Encode output_path) s1
      in case encode_run ev of
           ExecFails e \<Rightarrow> (Raises e, s2)
         | Exited rc wrote \<Rightarrow>
             (let s3 = (if wrote then s2\<lparr>files := insert output_path (files s2)\<rparr> else s2)
              in if rc \<noteq> 0
                 then (Returns, set_status video_id (rec_error ''Error creating output video'') s3)
                 else (Returns, set_status video_id (rec_completed output_path) s3)))"

text \<open>Lines 200 to 205: the loop over \<^verbatim>\<open>enumerate(frame_files)\<close>; \<open>i\<close> is the index
  of the head of the list.\<close>

fun transform_frames ::
  "env \<Rightarrow> string \<Rightarrow> string \<Rightarrow> string \<Rightarrow> nat \<Rightarrow> nat \<Rightarrow> string list \<Rightarrow> state \<Rightarrow> exn option \<times> state" where
  "transform_frames ev method video_id d total_frames i [] s = (None, s)"
| "transform_frames ev method video_id d total_frames i (frame_file # rest) s =
     (case process_frame ev d frame_file method s of
        (Inl e, s1) \<Rightarrow> (Some e, s1)
      | (Inr processed_frame, s1) \<Rightarrow>
          (case save_frame ev d frame_file processed_frame s1 of
             Inl e \<Rightarrow> (Some e, s1)
           | Inr s2 \<Rightarrow>
               transform_frames ev method video_id d total_frames (i + 1) rest
                 (set_status video_id
                    (rec_progress (of_nat (i + 1) / of_nat total_frames * 100)) s2)))"

text \<open>Lines 189 to 207.\<close>

definition transform_stage :: "env \<Rightarrow> string \<Rightarrow> string \<Rightarrow> string \<Rightarrow> state \<Rightarrow> flow \<times> state" where
  "transform_stage ev method video_id d s =
     (let s1 = set_status video_id (rec_stage 0 ''Removing background'') s
      in case os_listdir d s1 of
           Inl e \<Rightarrow> (Raises e, s1)
         | Inr names \<Rightarrow>
             (let frame_files = sort (filter (\<lambda>f. endswith f ''.png'') names);
                  total_frames = length frame_files
              in if total_frames = 0
                 then (Returns,
                       set_status video_id (rec_error ''No frames were extracted from the video'') s1)
                 else (case transform_frames ev method video_id d total_frames 0 frame_files s1 of
                         (Some e, s2) \<Rightarrow> (Raises e, s2)
                       | (None, s2) \<Rightarrow> encode_stage ev video_id s2)))"

text \<open>Lines 170 to 187, with \<open>d\<close> the value just bound to \<^verbatim>\<open>frames_dir\<close>. The
  payload of \<open>Exited\<close> is what \<^verbatim>\<open>ffmpeg\<close> wrote into the directory.\<close>

definition extract_stage :: "env \<Rightarrow> string \<Rightarrow> string \<Rightarrow> string \<Rightarrow> string \<Rightarrow> state \<Rightarrow> flow \<times> state" where
  "extract_stage ev video_path method video_id d s =
     (case makedirs_fails ev of
        Some e \<Rightarrow> (Raises e, emit (Makedirs d) s)
      | None \<Rightarrow>
          (let s1 = set_status video_id (rec_stage 0 ''Extracting frames'')
                      (os_makedirs d (emit (Makedirs d) s));
               s2 = emit (Extract video_path d) s1
           in case extract_run ev of
                ExecFails e \<Rightarrow> (Raises e, s2)
              | Exited rc written \<Rightarrow>
                  (let s3 = write_frames d written s2
                   in if rc \<noteq> 0
                      then (Returns, set_status video_id (rec_error ''Error extracting frames'') s3)
                      else transform_stage ev method video_id d s3)))"

text \<open>Lines 136 and 137.\<close>

definition acquire :: "env \<Rightarrow> string \<Rightarrow> state \<Rightarrow> exn + state" where
  "acquire ev method s =
     (if method = ''inspyrenet''
      then (case cuda_fails ev of Some e \<Rightarrow> Inl e | None \<Rightarrow> Inr (model_cuda s))
      else Inr s)"

text \<open>The \<^verbatim>\<open>try\<close> suite, lines 136 to 235. The middle component is the local
  variable \<^verbatim>\<open>frames_dir\<close> when the suite ends: \<open>None\<close> while line 169 has not run.\<close>

definition try_suite :: "env \<Rightarrow> string \<Rightarrow> string \<Rightarrow> string \<Rightarrow> state \<Rightarrow> flow \<times> string option \<times> state" where
  "try_suite ev video_path method video_id s =
     (case acquire ev method s of
        Inl e \<Rightarrow> (Raises e, None, s)
      | Inr s0 \<Rightarrow>
          (let s1 = emit (Probe video_path) (set_status video_id (rec_stage 0 ''Initializing'') s0)
           in case probe_run ev of
                ExecFails e \<Rightarrow> (Raises e, None, s1)
              | Exited rc stdout \<Rightarrow>
                  if rc \<noteq> 0
                  then (Returns, None, set_status video_id (rec_error ''Error counting frames'') s1)
                  else (case py_int (strip stdout) of
                          None \<Rightarrow> (Raises (int_literal_error (strip stdout)), None, s1)
                        | Some frame_count \<Rightarrow>
                            if frame_count > 250
                            then (Returns, None,
                                  set_status video_id (rec_error ''Video too long (max 250 frames)'') s1)
                            else (let frames_dir = path_join FRAMES_DIR video_id
                                  in case extract_stage ev video_path method video_id frames_dir s1 of
                                       (fl, s2) \<Rightarrow> (fl, Some frames_dir, s2)))))"

text \<open>The \<^verbatim>\<open>except Exception as e\<close> clause, lines 237 to 243.\<close>

definition except_clause :: "string \<Rightarrow> string \<Rightarrow> exn \<Rightarrow> state \<Rightarrow> state" where
  "except_clause method video_id e s =
     (let s1 = set_status video_id (rec_error (str_exn e)) s
      in if method = ''inspyrenet'' then model_cpu s1 else s1)"

fun remove_files :: "string \<Rightarrow> string list \<Rightarrow> state \<Rightarrow> exn option \<times> state" where
  "remove_files d [] s = (None, s)"
| "remove_files d (f # rest) s =
     (case os_remove d f s of Inl e \<Rightarrow> (Some e, s) | Inr s1 \<Rightarrow> remove_files d rest s1)"

text \<open>The \<^verbatim>\<open>finally\<close> clause, lines 245 to 254. Reading \<^verbatim>\<open>frames_dir\<close> while it is
  unbound raises \<^verbatim>\<open>UnboundLocalError\<close>; an exception here leaves the function.\<close>

definition finally_clause :: "string \<Rightarrow> string option \<Rightarrow> state \<Rightarrow> exn option \<times> state" where
  "finally_clause method frames_dir s =
     (case frames_dir of
        None \<Rightarrow> (Some (UnboundLocalError ''frames_dir''), s)
      | Some d \<Rightarrow>
          (case os_listdir d s of
             Inl e \<Rightarrow> (Some e, s)
           | Inr names \<Rightarrow>
               (case remove_files d names s of
                  (Some e, s1) \<Rightarrow> (Some e, s1)
                | (None, s1) \<Rightarrow>
                    (case os_rmdir d s1 of
                       Inl e \<Rightarrow> (Some e, s1)
                     | Inr s2 \<Rightarrow> (None, if method = ''inspyrenet'' then model_cpu s2 else s2)))))"

text \<open>\<^verbatim>\<open>process_video(video_path, method, video_id)\<close>. The first component of the
  result is the exception that leaves the coroutine, if any.\<close>

definition process_video :: "env \<Rightarrow> string \<Rightarrow> string \<Rightarrow> string \<Rightarrow> state \<Rightarrow> exn option \<times> state" where
  "process_video ev video_path method video_id s =
     (case try_suite ev video_path method video_id s of
        (Returns, frames_dir, s1) \<Rightarrow> finally_clause method frames_dir s1
      | (Raises e, frames_dir, s1) \<Rightarrow>
          finally_clause method frames_dir (except_clause method video_id e s1))"

text \<open>The state in which the probe is launched (lines 136 to 153), for reference in
  the statements below.\<close>

definition probing :: "string \<Rightarrow> string \<Rightarrow> string \<Rightarrow> state \<Rightarrow> state" where
  "probing video_path method video_id s =
     emit (Probe video_path)
       (set_status video_id (rec_stage 0 ''Initializing'')
          (if method = ''inspyrenet'' then model_cuda s else s))"

subsection \<open>The two endpoints\<close>

datatype response =
    HTTPError nat string
  | JsonBody jdict
  | FileResponse string string string

text \<open>\<^verbatim>\<open>remove_background_video\<close>. \<open>uuid4\<close> is the string \<^verbatim>\<open>str(uuid.uuid4())\<close> drew;
  \<open>write_fails\<close> is the exception of opening or writing the upload's file, if any.\<close>

definition remove_background_video ::
  "string \<Rightarrow> exn option \<Rightarrow> string \<Rightarrow> state \<Rightarrow> response \<times> state" where
  "remove_background_video uuid4 write_fails method s =
     (let video_id = uuid4;
          filename = ''input_'' @ video_id @ ''.mp4'';
          file_path = path_join TEMP_VIDEOS_DIR filename
      in case write_fails of
           Some e \<Rightarrow> (HTTPError 500 (''Error in video processing: '' @ str_exn e), s)
         | None \<Rightarrow>
             (let s1 = s\<lparr>files := insert file_path (files s)\<rparr>
              in if file_path \<notin> files s1
                 then (HTTPError 500
                         (''Error in video processing: 500: Failed to create video file: '' @ file_path),
                       s1)
                 else (JsonBody [(''video_id'', JStr video_id)],
                       s1\<lparr>tasks := tasks s1 @ [(file_path, method, video_id)]\<rparr>)))"

text \<open>\<^verbatim>\<open>get_status\<close>. A record with no \<^verbatim>\<open>status\<close> or \<^verbatim>\<open>output_path\<close> key where one
  is read is a \<^verbatim>\<open>KeyError\<close>, which the framework answers with status 500.\<close>

definition get_status :: "string \<Rightarrow> state \<Rightarrow> response" where
  "get_status video_id s =
     (case processing_status s video_id of
        None \<Rightarrow> HTTPError 404 ''Video ID not found''
      | Some status \<Rightarrow>
          (case map_of status ''status'' of
             None \<Rightarrow> HTTPError 500 ''Internal Server Error''
           | Some st \<Rightarrow>
               if st = JStr ''completed'' then
                 (case map_of status ''output_path'' of
                    Some (JStr output_path) \<Rightarrow>
                      if output_path \<notin> files s
                      then HTTPError 404 ''Processed video file not found''
                      else FileResponse output_path ''video/webm''
                             (''processed_video_'' @ video_id @ ''.webm'')
                  | _ \<Rightarrow> HTTPError 500 ''Internal Server Error'')
               else JsonBody status))"

subsection \<open>The retention janitor, \<^verbatim>\<open>cleanup_old_videos\<close>\<close>












subsection \<open>Concrete runs\<close>

text \<open>The process right after start-up: no job, the model on the CPU (line 65), an
  empty working directory.\<close>

definition boot :: state where
  "boot = \<lparr>processing_status = Map.empty, on_gpu = False, files = {},
           frame_dirs = Map.empty, tasks = [], log = []\<rparr>"

text \<open>An environment in which everything works: the probe prints \<^verbatim>\<open>2\<close>, the
  extraction writes two frames, every backend returns an image, the encoder writes
  its output.\<close>

definition env_ok :: env where
  "env_ok = \<lparr>cuda_fails = None,
             probe_run = Exited 0 [CHR ''2'', CHR 0x0A],
             makedirs_fails = None,
             extract_run = Exited 0 [(''frame_00002.png'', ''b''), (''frame_00001.png'', ''a'')],
             open_fails = (\<lambda>p. None),
             backend = (\<lambda>m img. Inr (''cut:'' @ img)),
             save_fails = (\<lambda>p. None),
             encode_run = Exited 0 True\<rparr>"

subsection \<open>Predicates used in the statements\<close>

text \<open>A record whose \<^verbatim>\<open>status\<close> is \<^verbatim>\<open>completed\<close> or \<^verbatim>\<open>error\<close>.\<close>

definition terminal :: "jdict \<Rightarrow> bool" where
  "terminal r = (map_of r ''status'' = Some (JStr ''completed'')
               \<or> map_of r ''status'' = Some (JStr ''error''))"

definition job_terminal :: "string \<Rightarrow> state \<Rightarrow> bool" where
  "job_terminal video_id s =
     (case processing_status s video_id of None \<Rightarrow> False | Some r \<Rightarrow> terminal r)"




text \<open>The four forms of dictionary that \<^verbatim>\<open>process_video\<close> stores: at a stage
  boundary, after a frame, on an error, on completion.\<close>

definition record_shape :: "jdict \<Rightarrow> bool" where
  "record_shape r =
     (map fst r = [''status'', ''progress'', ''message'']
        \<and> map_of r ''status'' = Some (JStr ''processing'')
      \<or> map fst r = [''status'', ''progress'']
        \<and> map_of r ''status'' = Some (JStr ''processing'')
      \<or> map fst r = [''status'', ''message'']
        \<and> map_of r ''status'' = Some (JStr ''error'')
      \<or> map fst r = [''status'', ''output_path'']
        \<and> map_of r ''status'' = Some (JStr ''completed''))"



text \<open>The events that stand for work on frames: a backend call, an encoder launch.\<close>

fun heavy :: "event \<Rightarrow> bool" where
  "heavy (Backend method frame_path) = True"
| "heavy (Encode output_path) = True"
| "heavy ev = False"

section \<open>Properties\<close>

subsection \<open>Field lemmas\<close>

lemma emit_fields [simp]:
  "processing_status (emit e s) = processing_status s"
  "on_gpu (emit e s) = on_gpu s"
  "files (emit e s) = files s"
  "frame_dirs (emit e s) = frame_dirs s"
  "tasks (emit e s) = tasks s"
  "log (emit e s) = log s @ [e]"
  by (simp_all add: emit_def)

lemma set_status_fields [simp]:
  "processing_status (set_status v d s) = (processing_status s)(v \<mapsto> d)"
  "on_gpu (set_status v d s) = on_gpu s"
  "files (set_status v d s) = files s"
  "frame_dirs (set_status v d s) = frame_dirs s"
  "tasks (set_status v d s) = tasks s"
  "log (set_status v d s) = log s @ [Status v d]"
  by (simp_all add: set_status_def)

lemma model_cuda_fields [simp]:
  "processing_status (model_cuda s) = processing_status s"
  "on_gpu (model_cuda s) = True"
  "files (model_cuda s) = files s"
  "frame_dirs (model_cuda s) = frame_dirs s"
  "tasks (model_cuda s) = tasks s"
  "log (model_cuda s) = log s @ [Cuda]"
  by (simp_all add: model_cuda_def)

lemma model_cpu_fields [simp]:
  "processing_status (model_cpu s) = processing_status s"
  "on_gpu (model_cpu s) = False"
  "files (model_cpu s) = files s"
  "frame_dirs (model_cpu s) = frame_dirs s"
  "tasks (model_cpu s) = tasks s"
  "log (model_cpu s) = log s @ [Cpu]"
  by (simp_all add: model_cpu_def)

lemma except_clause_fields [simp]:
  "processing_status (except_clause method v e s) = (processing_status s)(v \<mapsto> rec_error (str_exn e))"
  "on_gpu (except_clause method v e s) = (if method = ''inspyrenet'' then False else on_gpu s)"
  "files (except_clause method v e s) = files s"
  "frame_dirs (except_clause method v e s) = frame_dirs s"
  "tasks (except_clause method v e s) = tasks s"
  "log (except_clause method v e s)
     = log s @ Status v (rec_error (str_exn e)) # (if method = ''inspyrenet'' then [Cpu] else [])"
  by (simp_all add: except_clause_def Let_def)

subsection \<open>The paths that leave the \<^verbatim>\<open>try\<close> suite before line 169\<close>

lemma try_suite_probe_exit:
  assumes "method \<noteq> ''inspyrenet'' \<or> cuda_fails ev = None"
    and "probe_run ev = Exited rc out" and "rc \<noteq> 0"
  shows "try_suite ev video_path method video_id s =
           (Returns, None,
            set_status video_id (rec_error ''Error counting frames'')
              (probing video_path method video_id s))"
  using assms by (auto simp add: try_suite_def acquire_def probing_def)

lemma try_suite_gate:
  assumes "method \<noteq> ''inspyrenet'' \<or> cuda_fails ev = None"
    and "probe_run ev = Exited 0 out"
    and "py_int (strip out) = Some n" and "n > 250"
  shows "try_suite ev video_path method video_id s =
           (Returns, None,
            set_status video_id (rec_error ''Video too long (max 250 frames)'')
              (probing video_path method video_id s))"
  using assms by (auto simp add: try_suite_def acquire_def probing_def)


lemma finally_clause_unbound:
  "finally_clause method None s = (Some (UnboundLocalError ''frames_dir''), s)"
  by (simp add: finally_clause_def)

lemma py_int_300: "py_int (strip [CHR ''3'', CHR ''0'', CHR ''0'', CHR 0x0A]) = Some 300"
  by (simp add: py_int_def strip_def is_space_def py_nat_def digit_of_def)


subsection \<open>Exceptions that leave \<^verbatim>\<open>process_video\<close>\<close>

text \<open>
  C1. The claim: no exception ever leaves \<^verbatim>\<open>process_video\<close>, in particular not on the
  paths where the probe fails or the frame-count gate rejects the video.
  What the code does on these two paths: the \<^verbatim>\<open>try\<close> suite returns before
  \<^verbatim>\<open>frames_dir\<close> is assigned, the \<^verbatim>\<open>finally\<close> clause reads \<^verbatim>\<open>frames_dir\<close>, and the
  \<^verbatim>\<open>UnboundLocalError\<close> raised there leaves the coroutine: whenever the probe exits
  with a non-zero code, or prints a frame count above 250, \<^verbatim>\<open>process_video\<close> ends
  with that exception.
\<close>

theorem process_video_raises_when_frames_dir_unbound:
  assumes "method \<noteq> ''inspyrenet'' \<or> cuda_fails ev = None"
    and "probe_run ev = Exited rc out"
    and "rc \<noteq> 0 \<or> (\<exists>n. py_int (strip out) = Some n \<and> n > 250)"
  shows "fst (process_video ev video_path method video_id s) = Some (UnboundLocalError ''frames_dir'')"
proof (cases "rc = 0")
  case False
  then show ?thesis
    using assms(1,2) by (simp add: process_video_def try_suite_probe_exit finally_clause_unbound)
next
  case True
  with assms(3) obtain n where "py_int (strip out) = Some n" "n > 250" by auto
  with True assms(1,2) show ?thesis
    by (simp add: process_video_def try_suite_gate finally_clause_unbound)
qed

theorem process_video_raises_when_frames_dir_unbound_witness:
  "fst (process_video (env_ok\<lparr>probe_run := Exited 1 []\<rparr>)
          ''temp_videos/input_j1.mp4'' ''u2net'' ''j1'' boot)
   = Some (UnboundLocalError ''frames_dir'')
   \<and> fst (process_video (env_ok\<lparr>probe_run := Exited 0 [CHR ''3'', CHR ''0'', CHR ''0'', CHR 0x0A]\<rparr>)
          ''temp_videos/input_j1.mp4'' ''inspyrenet'' ''j1'' boot)
   = Some (UnboundLocalError ''frames_dir'')"
  using process_video_raises_when_frames_dir_unbound
          [of "''u2net''" "env_ok\<lparr>probe_run := Exited 1 []\<rparr>" 1 "[]"
              "''temp_videos/input_j1.mp4''" "''j1''" boot]
        process_video_raises_when_frames_dir_unbound
          [of "''inspyrenet''" "env_ok\<lparr>probe_run := Exited 0 [CHR ''3'', CHR ''0'', CHR ''0'', CHR 0x0A]\<rparr>"
              0 "[CHR ''3'', CHR ''0'', CHR ''0'', CHR 0x0A]"
              "''temp_videos/input_j1.mp4''" "''j1''" boot]
  by (simp add: env_ok_def py_int_300)

subsection \<open>The accelerator\<close>

text \<open>
  C2. The claim: for method \<^verbatim>\<open>inspyrenet\<close> the model is back on the CPU on every exit
  path of \<^verbatim>\<open>process_video\<close>.
  What the code does when the probe exits with a non-zero code or the gate rejects the
  video: the model was moved to the accelerator at line 137, the \<^verbatim>\<open>except\<close> clause does
  not run (nothing was raised in the suite), and the \<^verbatim>\<open>finally\<close> clause raises at
  line 247, before its release at line 253. The model stays on the accelerator.
\<close>

theorem accelerator_held_after_early_return:
  assumes "cuda_fails ev = None"
    and "probe_run ev = Exited rc out"
    and "rc \<noteq> 0 \<or> (\<exists>n. py_int (strip out) = Some n \<and> n > 250)"
  shows "on_gpu (snd (process_video ev video_path ''inspyrenet'' video_id s))"
proof (cases "rc = 0")
  case False
  then show ?thesis
    using assms(1,2)
    by (simp add: process_video_def try_suite_probe_exit finally_clause_unbound probing_def)
next
  case True
  with assms(3) obtain n where "py_int (strip out) = Some n" "n > 250" by auto
  with True assms(1,2) show ?thesis
    by (simp add: process_video_def try_suite_gate finally_clause_unbound probing_def)
qed

theorem accelerator_held_after_early_return_witness:
  "on_gpu (snd (process_video (env_ok\<lparr>probe_run := Exited 0 [CHR ''3'', CHR ''0'', CHR ''0'', CHR 0x0A]\<rparr>)
                  ''temp_videos/input_j1.mp4'' ''inspyrenet'' ''j1'' boot))
   \<and> on_gpu (snd (process_video (env_ok\<lparr>probe_run := Exited 1 []\<rparr>)
                  ''temp_videos/input_j1.mp4'' ''inspyrenet'' ''j1'' boot))"
  using accelerator_held_after_early_return
          [of "env_ok\<lparr>probe_run := Exited 0 [CHR ''3'', CHR ''0'', CHR ''0'', CHR 0x0A]\<rparr>" 0
              "[CHR ''3'', CHR ''0'', CHR ''0'', CHR 0x0A]"
              "''temp_videos/input_j1.mp4''" "''j1''" boot]
        accelerator_held_after_early_return
          [of "env_ok\<lparr>probe_run := Exited 1 []\<rparr>" 1 "[]"
              "''temp_videos/input_j1.mp4''" "''j1''" boot]
  by (simp add: env_ok_def py_int_300)

subsection \<open>The frame-count gate\<close>

text \<open>
  C4. When the probe exits with code 0 and prints a frame count above 250, the job's
  record becomes status \<^verbatim>\<open>error\<close> with message \<^verbatim>\<open>Video too long (max 250 frames)\<close>.
  The run launches the probe and nothing else: no \<^verbatim>\<open>makedirs\<close>, no extraction, no
  encoding; the frame directories and the files of \<^verbatim>\<open>temp_videos\<close> are as before, so
  no frame directory and no output artifact was created.
\<close>

theorem gate_rejects_long_video:
  assumes "method \<noteq> ''inspyrenet'' \<or> cuda_fails ev = None"
    and "probe_run ev = Exited 0 out"
    and "py_int (strip out) = Some frame_count"
    and "frame_count > 250"
  shows "processing_status (snd (process_video ev video_path method video_id s)) video_id
           = Some [(''status'', JStr ''error''), (''message'', JStr ''Video too long (max 250 frames)'')]
       \<and> log (snd (process_video ev video_path method video_id s))
           = log s @ (if method = ''inspyrenet'' then [Cuda] else [])
               @ [Status video_id [(''status'', JStr ''processing''), (''progress'', JInt 0),
                                   (''message'', JStr ''Initializing'')],
                  Probe video_path,
                  Status video_id [(''status'', JStr ''error''),
                                   (''message'', JStr ''Video too long (max 250 frames)'')]]
       \<and> frame_dirs (snd (process_video ev video_path method video_id s)) = frame_dirs s
       \<and> files (snd (process_video ev video_path method video_id s)) = files s"
  using assms
  by (simp add: process_video_def try_suite_gate finally_clause_unbound probing_def
        rec_error_def rec_stage_def)

theorem gate_rejects_long_video_witness:
  "processing_status (snd (process_video (env_ok\<lparr>probe_run := Exited 0 [CHR ''3'', CHR ''0'', CHR ''0'', CHR 0x0A]\<rparr>)
                            ''temp_videos/input_j1.mp4'' ''u2net'' ''j1'' boot)) ''j1''
           = Some [(''status'', JStr ''error''), (''message'', JStr ''Video too long (max 250 frames)'')]
       \<and> log (snd (process_video (env_ok\<lparr>probe_run := Exited 0 [CHR ''3'', CHR ''0'', CHR ''0'', CHR 0x0A]\<rparr>)
                            ''temp_videos/input_j1.mp4'' ''u2net'' ''j1'' boot))
           = [Status ''j1'' [(''status'', JStr ''processing''), (''progress'', JInt 0),
                                   (''message'', JStr ''Initializing'')],
                  Probe ''temp_videos/input_j1.mp4'',
                  Status ''j1'' [(''status'', JStr ''error''),
                                   (''message'', JStr ''Video too long (max 250 frames)'')]]
       \<and> frame_dirs (snd (process_video (env_ok\<lparr>probe_run := Exited 0 [CHR ''3'', CHR ''0'', CHR ''0'', CHR 0x0A]\<rparr>)
                            ''temp_videos/input_j1.mp4'' ''u2net'' ''j1'' boot)) = Map.empty
       \<and> files (snd (process_video (env_ok\<lparr>probe_run := Exited 0 [CHR ''3'', CHR ''0'', CHR ''0'', CHR 0x0A]\<rparr>)
                            ''temp_videos/input_j1.mp4'' ''u2net'' ''j1'' boot)) = {}"
  using gate_rejects_long_video
          [of "''u2net''" "env_ok\<lparr>probe_run := Exited 0 [CHR ''3'', CHR ''0'', CHR ''0'', CHR 0x0A]\<rparr>"
              "[CHR ''3'', CHR ''0'', CHR ''0'', CHR 0x0A]" 300
              "''temp_videos/input_j1.mp4''" "''j1''" boot]
  by (simp add: env_ok_def py_int_300 boot_def)

subsection \<open>Probe failures\<close>





subsection \<open>The \<^verbatim>\<open>finally\<close> clause\<close>

lemma remove_files_listed:
  assumes "frame_dirs s d = Some entries" and "distinct names" and "set names \<subseteq> fst ` set entries"
  shows "remove_files d names s
           = (None, s\<lparr>frame_dirs := (frame_dirs s)(d \<mapsto> filter (\<lambda>e. fst e \<notin> set names) entries)\<rparr>)"
  using assms
proof (induction names arbitrary: s entries)
  case Nil
  then have "(frame_dirs s)(d \<mapsto> entries) = frame_dirs s" by (simp add: fun_upd_idem)
  then show ?case by simp
next
  case (Cons f rest)
  let ?s1 = "s\<lparr>frame_dirs := (frame_dirs s)(d \<mapsto> filter (\<lambda>e. fst e \<noteq> f) entries)\<rparr>"
  have rm: "os_remove d f s = Inr ?s1"
    using Cons.prems by (simp add: os_remove_def)
  have sub: "set rest \<subseteq> fst ` set (filter (\<lambda>e. fst e \<noteq> f) entries)"
  proof
    fix x assume x: "x \<in> set rest"
    then have "x \<noteq> f" using Cons.prems(2) by auto
    moreover obtain e where "e \<in> set entries" "fst e = x" using x Cons.prems(3) by auto
    ultimately show "x \<in> fst ` set (filter (\<lambda>e. fst e \<noteq> f) entries)" by force
  qed
  have ih: "remove_files d rest ?s1
          = (None, ?s1\<lparr>frame_dirs := (frame_dirs ?s1)(d \<mapsto>
                filter (\<lambda>e. fst e \<notin> set rest) (filter (\<lambda>e. fst e \<noteq> f) entries))\<rparr>)"
    using Cons.prems sub by (intro Cons.IH) simp_all
  have filt: "filter (\<lambda>e. fst e \<notin> set rest) (filter (\<lambda>e. fst e \<noteq> f) entries)
                   = filter (\<lambda>e. fst e \<notin> set (f # rest)) entries"
    by (induction entries) auto
  have same: "?s1\<lparr>frame_dirs := (frame_dirs ?s1)(d \<mapsto>
                filter (\<lambda>e. fst e \<notin> set rest) (filter (\<lambda>e. fst e \<noteq> f) entries))\<rparr>
              = s\<lparr>frame_dirs := (frame_dirs s)(d \<mapsto> filter (\<lambda>e. fst e \<notin> set (f # rest)) entries)\<rparr>"
    unfolding filt by simp
  have "remove_files d (f # rest) s = remove_files d rest ?s1"
    by (simp add: rm)
  then show ?case
    by (simp only: ih same)
qed

lemma finally_clause_existing_dir:
  assumes "frame_dirs s d = Some entries"
  shows "finally_clause method (Some d) s
           = (None, if method = ''inspyrenet''
                    then model_cpu (s\<lparr>frame_dirs := (frame_dirs s)(d := None)\<rparr>)
                    else s\<lparr>frame_dirs := (frame_dirs s)(d := None)\<rparr>)"
proof -
  have "filter (\<lambda>e. fst e \<notin> set (remdups (map fst entries))) entries = []"
    by (induction entries) auto
  then have "remove_files d (remdups (map fst entries)) s
               = (None, s\<lparr>frame_dirs := (frame_dirs s)(d \<mapsto> [])\<rparr>)"
    using remove_files_listed [OF assms, of "remdups (map fst entries)"] by simp
  then show ?thesis
    using assms by (simp add: finally_clause_def os_listdir_def os_rmdir_def)
qed

lemma finally_clause_missing_dir:
  assumes "frame_dirs s d = None"
  shows "finally_clause method (Some d) s = (Some (FileNotFoundError d), s)"
  using assms by (simp add: finally_clause_def os_listdir_def)

text \<open>Whatever happens, the \<^verbatim>\<open>finally\<close> clause leaves the registry and the top-level
  files alone, and afterwards the directory it was given does not exist.\<close>

lemma finally_clause_registry [simp]:
  "processing_status (snd (finally_clause method fd s)) = processing_status s"
proof (cases fd)
  case None
  then show ?thesis by (simp add: finally_clause_unbound)
next
  case (Some d)
  then show ?thesis
    by (cases "frame_dirs s d") (simp_all add: finally_clause_missing_dir finally_clause_existing_dir)
qed

lemma finally_clause_files [simp]:
  "files (snd (finally_clause method fd s)) = files s"
proof (cases fd)
  case None
  then show ?thesis by (simp add: finally_clause_unbound)
next
  case (Some d)
  then show ?thesis
    by (cases "frame_dirs s d") (simp_all add: finally_clause_missing_dir finally_clause_existing_dir)
qed


subsection \<open>What the stages do to the disk\<close>

lemma os_makedirs_fields [simp]:
  "processing_status (os_makedirs d s) = processing_status s"
  "on_gpu (os_makedirs d s) = on_gpu s"
  "files (os_makedirs d s) = files s"
  "tasks (os_makedirs d s) = tasks s"
  "log (os_makedirs d s) = log s"
  "(frame_dirs (os_makedirs d s))(d := None) = (frame_dirs s)(d := None)"
  by (simp_all add: os_makedirs_def split: option.splits)

lemma write_frames_fields [simp]:
  "processing_status (write_frames d w s) = processing_status s"
  "on_gpu (write_frames d w s) = on_gpu s"
  "files (write_frames d w s) = files s"
  "tasks (write_frames d w s) = tasks s"
  "log (write_frames d w s) = log s"
  "(frame_dirs (write_frames d w s))(d := None) = (frame_dirs s)(d := None)"
  by (simp_all add: write_frames_def split: option.splits)

lemma process_frame_fields [simp]:
  "processing_status (snd (process_frame ev d f method s)) = processing_status s"
  "on_gpu (snd (process_frame ev d f method s)) = on_gpu s"
  "files (snd (process_frame ev d f method s)) = files s"
  "tasks (snd (process_frame ev d f method s)) = tasks s"
  "frame_dirs (snd (process_frame ev d f method s)) = frame_dirs s"
  by (simp_all add: process_frame_def call_backend_def split: sum.splits option.splits)

lemma save_frame_fields:
  assumes "save_frame ev d f img s = Inr s'"
  shows "processing_status s' = processing_status s" and "on_gpu s' = on_gpu s"
    and "files s' = files s" and "tasks s' = tasks s" and "log s' = log s"
    and "(frame_dirs s')(d := None) = (frame_dirs s)(d := None)"
  using assms by (auto simp add: save_frame_def write_frame_def split: option.splits)






subsection \<open>Every run ends in a terminal record\<close>

lemma terminal_records [simp]:
  "terminal (rec_error m)" "terminal (rec_completed p)"
  "\<not> terminal (rec_stage n m)" "\<not> terminal (rec_progress q)"
  by (simp_all add: terminal_def rec_error_def rec_completed_def rec_stage_def rec_progress_def)

lemma job_terminal_set_status [simp]:
  "job_terminal v (set_status v r s) = terminal r"
  by (simp add: job_terminal_def)

lemma encode_stage_returns:
  assumes "encode_stage ev v s = (Returns, s')"
  shows "job_terminal v s'"
  using assms by (auto simp add: encode_stage_def Let_def split: proc.splits if_splits)

lemma transform_stage_returns:
  assumes "transform_stage ev method v d s = (Returns, s')"
  shows "job_terminal v s'"
  using assms
  by (auto simp add: transform_stage_def Let_def
           split: sum.splits if_splits prod.splits option.splits
           dest: encode_stage_returns)

lemma extract_stage_returns:
  assumes "extract_stage ev video_path method v d s = (Returns, s')"
  shows "job_terminal v s'"
  using assms
  by (auto simp add: extract_stage_def Let_def
           split: proc.splits if_splits option.splits
           dest: transform_stage_returns)

lemma try_suite_returns:
  assumes "try_suite ev video_path method v s = (Returns, fd, s')"
  shows "job_terminal v s'"
  using assms
  by (auto simp add: try_suite_def Let_def
           split: sum.splits proc.splits if_splits option.splits prod.splits
           dest: extract_stage_returns)

lemma job_terminal_finally [simp]:
  "job_terminal v (snd (finally_clause method fd s)) = job_terminal v s"
  by (simp add: job_terminal_def)

lemma process_video_terminal:
  "job_terminal v (snd (process_video ev video_path method v s))"
proof (cases "try_suite ev video_path method v s")
  case (fields fl fd s1)
  show ?thesis
  proof (cases fl)
    case Returns
    with fields show ?thesis
      by (simp add: process_video_def try_suite_returns)
  next
    case (Raises e)
    with fields show ?thesis
      by (simp add: process_video_def job_terminal_def)
  qed
qed


subsection \<open>Terminal cleanup\<close>




subsection \<open>The records of other jobs\<close>

text \<open>\<^verbatim>\<open>process_video\<close> writes only the record of its own job, and no record is
  ever removed.\<close>

lemma transform_frames_registry:
  assumes "u \<noteq> video_id"
  shows "processing_status (snd (transform_frames ev method video_id d n i fs s)) u
           = processing_status s u"
proof (induction fs arbitrary: i s)
  case Nil
  show ?case by simp
next
  case (Cons f rest)
  show ?case
  proof (cases "process_frame ev d f method s")
    case (Pair r s1)
    have s1: "processing_status s1 = processing_status s"
      using process_frame_fields(1) [of ev d f "method" s] Pair by simp
    show ?thesis
    proof (cases r)
      case (Inl e)
      with Pair s1 show ?thesis by simp
    next
      case (Inr img)
      show ?thesis
      proof (cases "save_frame ev d f img s1")
        case (Inl e)
        with Pair \<open>r = Inr img\<close> s1 show ?thesis by simp
      next
        case (Inr s2)
        show ?thesis
          using Pair \<open>r = Inr img\<close> Inr s1 save_frame_fields(1) [OF Inr] assms
                Cons.IH [of "i + 1" "set_status video_id
                    (rec_progress (of_nat (i + 1) / of_nat n * 100)) s2"]
          by simp
      qed
    qed
  qed
qed

lemma encode_stage_registry:
  assumes "u \<noteq> video_id"
  shows "processing_status (snd (encode_stage ev video_id s)) u = processing_status s u"
  using assms by (simp add: encode_stage_def Let_def split: proc.splits)

lemma transform_stage_registry:
  assumes "u \<noteq> video_id"
  shows "processing_status (snd (transform_stage ev method video_id d s)) u = processing_status s u"
proof (cases "os_listdir d (set_status video_id (rec_stage 0 ''Removing background'') s)")
  case (Inl e)
  with assms show ?thesis by (simp add: transform_stage_def)
next
  case (Inr names)
  let ?s1 = "set_status video_id (rec_stage 0 ''Removing background'') s"
  let ?ff = "sort (filter (\<lambda>f. endswith f ''.png'') names)"
  show ?thesis
  proof (cases "transform_frames ev method video_id d (length ?ff) 0 ?ff ?s1")
    case (Pair r s2)
    have s2: "processing_status s2 u = processing_status s u"
      using transform_frames_registry [OF assms, of ev "method" d "length ?ff" 0 ?ff ?s1] Pair assms
      by simp
    show ?thesis
      using Inr Pair s2 assms encode_stage_registry [OF assms, of ev s2]
      by (cases r) (simp_all add: transform_stage_def Let_def)
  qed
qed

lemma extract_stage_registry:
  assumes "u \<noteq> video_id"
  shows "processing_status (snd (extract_stage ev video_path method video_id d s)) u
           = processing_status s u"
proof (cases "makedirs_fails ev")
  case (Some e)
  then show ?thesis by (simp add: extract_stage_def)
next
  case None
  let ?s2 = "emit (Extract video_path d) (set_status video_id (rec_stage 0 ''Extracting frames'')
                      (os_makedirs d (emit (Makedirs d) s)))"
  show ?thesis
  proof (cases "extract_run ev")
    case (ExecFails e)
    with None assms show ?thesis by (simp add: extract_stage_def)
  next
    case (Exited rc written)
    show ?thesis
      using None Exited assms
            transform_stage_registry [OF assms, of ev "method" d "write_frames d written ?s2"]
      by (simp add: extract_stage_def Let_def)
  qed
qed

lemma try_suite_registry:
  assumes "u \<noteq> video_id"
  shows "processing_status (snd (snd (try_suite ev video_path method video_id s))) u
           = processing_status s u"
proof (cases "acquire ev method s")
  case (Inl e)
  then show ?thesis by (simp add: try_suite_def)
next
  case (Inr s0)
  then have s0: "processing_status s0 = processing_status s"
    by (auto simp add: acquire_def split: if_splits option.splits)
  let ?s1 = "emit (Probe video_path) (set_status video_id (rec_stage 0 ''Initializing'') s0)"
  show ?thesis
    using Inr s0 assms
          extract_stage_registry [OF assms, of ev video_path "method" "path_join FRAMES_DIR video_id" ?s1]
    by (auto simp add: try_suite_def Let_def split: proc.splits option.splits prod.splits)
qed

lemma process_video_registry:
  assumes "u \<noteq> video_id"
  shows "processing_status (snd (process_video ev video_path method video_id s)) u
           = processing_status s u"
proof (cases "try_suite ev video_path method video_id s")
  case (fields fl fd s1)
  have "processing_status s1 u = processing_status s u"
    using try_suite_registry [OF assms, of ev video_path "method" s] fields by simp
  then show ?thesis
    using fields assms by (cases fl) (simp_all add: process_video_def)
qed

lemma process_video_keeps_records:
  assumes "processing_status s u = Some r"
  shows "\<exists>r'. processing_status (snd (process_video ev video_path method video_id s)) u = Some r'"
proof (cases "u = video_id")
  case True
  have "job_terminal video_id (snd (process_video ev video_path method video_id s))"
    by (rule process_video_terminal)
  with True show ?thesis by (simp add: job_terminal_def split: option.splits)
next
  case False
  from process_video_registry [OF this, of ev video_path "method" s] assms
  show ?thesis by simp
qed

subsection \<open>Admission\<close>

lemma get_status_not_found:
  "(get_status v s = HTTPError 404 ''Video ID not found'') = (processing_status s v = None)"
  by (auto simp add: get_status_def split: option.splits jval.splits if_splits)

text \<open>
  C7, as stated, fails: after a successful admission, and before the scheduled
  \<^verbatim>\<open>process_video\<close> has run, the status query for the admitted identifier answers 404
  \<^verbatim>\<open>Video ID not found\<close>.
\<close>

theorem status_not_found_after_admission_counterexample:
  "fst (remove_background_video ''j1'' None ''u2net'' boot) = JsonBody [(''video_id'', JStr ''j1'')]
   \<and> get_status ''j1'' (snd (remove_background_video ''j1'' None ''u2net'' boot))
       = HTTPError 404 ''Video ID not found''"
  by (simp add: remove_background_video_def get_status_def boot_def Let_def)

text \<open>
  C7, amended. Admission does not create the job's registry record: it leaves the
  registry as it is and, when the upload was stored, appends the call of
  \<^verbatim>\<open>process_video\<close> to the background tasks. The record is created by
  \<^verbatim>\<open>process_video\<close>: after it has run, from any state, the identifier has a record (one,
  the registry being a dictionary), and a record that exists is still there after any
  later run of \<^verbatim>\<open>process_video\<close>, for this or another job. A status query answers
  \<^verbatim>\<open>Video ID not found\<close> exactly when the identifier has no record, so it does so for an
  admitted identifier until the orchestrator has started, and not afterwards.
\<close>

theorem registry_record_created_by_orchestrator:
  "processing_status (snd (remove_background_video uuid4 write_fails method s)) = processing_status s
   \<and> tasks (snd (remove_background_video uuid4 None method s))
       = tasks s @ [(path_join TEMP_VIDEOS_DIR (''input_'' @ uuid4 @ ''.mp4''), method, uuid4)]
   \<and> (\<exists>r. processing_status (snd (process_video ev video_path method uuid4 sa)) uuid4 = Some r)
   \<and> (processing_status sb uuid4 = Some r1
      \<longrightarrow> (\<exists>r2. processing_status (snd (process_video ev2 video_path2 method2 video_id2 sb)) uuid4
                   = Some r2))
   \<and> (get_status uuid4 sc = HTTPError 404 ''Video ID not found'') = (processing_status sc uuid4 = None)"
proof -
  have "job_terminal uuid4 (snd (process_video ev video_path method uuid4 sa))"
    by (rule process_video_terminal)
  then have "\<exists>r. processing_status (snd (process_video ev video_path method uuid4 sa)) uuid4 = Some r"
    by (simp add: job_terminal_def split: option.splits)
  moreover have "\<exists>r2. processing_status (snd (process_video ev2 video_path2 method2 video_id2 sb)) uuid4
                   = Some r2"
    if "processing_status sb uuid4 = Some r1"
    using that by (rule process_video_keeps_records)
  ultimately show ?thesis
    by (simp add: remove_background_video_def Let_def get_status_not_found split: option.splits)
qed

theorem registry_record_created_by_orchestrator_witness:
  "processing_status (snd (remove_background_video ''j1'' None ''u2net'' boot)) ''j1'' = None
   \<and> tasks (snd (remove_background_video ''j1'' None ''u2net'' boot))
       = [(''temp_videos/input_j1.mp4'', ''u2net'', ''j1'')]
   \<and> (\<exists>r. processing_status
             (snd (process_video env_ok ''temp_videos/input_j1.mp4'' ''u2net'' ''j1''
                     (snd (remove_background_video ''j1'' None ''u2net'' boot)))) ''j1'' = Some r)
   \<and> (\<exists>r. processing_status
             (snd (process_video env_ok ''temp_videos/input_j2.mp4'' ''bria'' ''j2''
                (snd (process_video env_ok ''temp_videos/input_j1.mp4'' ''u2net'' ''j1''
                     (snd (remove_background_video ''j1'' None ''u2net'' boot)))))) ''j1'' = Some r)"
proof -
  let ?a = "snd (remove_background_video ''j1'' None ''u2net'' boot)"
  let ?b = "snd (process_video env_ok ''temp_videos/input_j1.mp4'' ''u2net'' ''j1'' ?a)"
  note first = registry_record_created_by_orchestrator
          [of "''j1''" None "''u2net''" boot env_ok "''temp_videos/input_j1.mp4''" ?a]
  then obtain r where r: "processing_status ?b ''j1'' = Some r" by blast
  note second = registry_record_created_by_orchestrator
          [of "''j1''" None "''u2net''" boot env_ok "''temp_videos/input_j1.mp4''" ?a
              ?b r env_ok "''temp_videos/input_j2.mp4''" "''bria''" "''j2''"]
  have later: "\<exists>r. processing_status
             (snd (process_video env_ok ''temp_videos/input_j2.mp4'' ''bria'' ''j2'' ?b)) ''j1'' = Some r"
    using second r by blast
  show ?thesis
    using first later by (simp add: boot_def path_join_def TEMP_VIDEOS_DIR_def)
qed

text \<open>
  C10, as stated, fails: the key of the admission response is \<^verbatim>\<open>video_id\<close>, not
  \<^verbatim>\<open>job_id\<close>.
\<close>

theorem admission_response_key_counterexample:
  "fst (remove_background_video ''j1'' None ''u2net'' boot) \<noteq> JsonBody [(''job_id'', JStr ''j1'')]"
  by (simp add: remove_background_video_def boot_def Let_def)

text \<open>
  C10, amended. For every video-admission request whose upload is stored, the response
  body is a JSON object with the single key \<^verbatim>\<open>video_id\<close> mapping to the job's string
  identifier. It is returned without any processing: the call of \<^verbatim>\<open>process_video\<close> is
  only appended to the background tasks, and no device move, subprocess, backend call or
  registry write has happened.
\<close>

theorem admission_response:
  "fst (remove_background_video uuid4 None method s) = JsonBody [(''video_id'', JStr uuid4)]
   \<and> tasks (snd (remove_background_video uuid4 None method s))
       = tasks s @ [(path_join TEMP_VIDEOS_DIR (''input_'' @ uuid4 @ ''.mp4''), method, uuid4)]
   \<and> log (snd (remove_background_video uuid4 None method s)) = log s
   \<and> processing_status (snd (remove_background_video uuid4 None method s)) = processing_status s
   \<and> on_gpu (snd (remove_background_video uuid4 None method s)) = on_gpu s"
  by (simp add: remove_background_video_def Let_def)

theorem admission_response_witness:
  "fst (remove_background_video ''j1'' None ''u2net'' boot) = JsonBody [(''video_id'', JStr ''j1'')]
   \<and> tasks (snd (remove_background_video ''j1'' None ''u2net'' boot))
       = [(''temp_videos/input_j1.mp4'', ''u2net'', ''j1'')]
   \<and> log (snd (remove_background_video ''j1'' None ''u2net'' boot)) = []"
  using admission_response [of "''j1''" "''u2net''" boot]
  by (simp add: boot_def path_join_def TEMP_VIDEOS_DIR_def)

subsection \<open>The janitor\<close>









subsection \<open>The dictionaries stored in the registry\<close>

lemma record_shapes [simp]:
  "record_shape (rec_stage n m)" "record_shape (rec_progress q)"
  "record_shape (rec_error m)" "record_shape (rec_completed p)"
  by (simp_all add: record_shape_def rec_stage_def rec_progress_def rec_error_def rec_completed_def)

lemma finally_clause_log:
  "log (snd (finally_clause method fd s)) = log s
   \<or> log (snd (finally_clause method fd s)) = log s @ [Cpu]"
proof (cases fd)
  case None
  then show ?thesis by (simp add: finally_clause_unbound)
next
  case (Some d)
  then show ?thesis
    by (cases "frame_dirs s d") (simp_all add: finally_clause_missing_dir finally_clause_existing_dir)
qed














subsection \<open>Unsupported methods\<close>

lemma rec_error_ex [simp]: "\<exists>m. rec_error x = rec_error m"
  by blast







lemma finally_clause_heavy [simp]:
  "filter heavy (log (snd (finally_clause method fd s))) = filter heavy (log s)"
  using finally_clause_log [of "method" fd s] by auto










subsection \<open>What the \<^verbatim>\<open>except\<close> clause does achieve\<close>

text \<open>An exception raised inside the
  \<^verbatim>\<open>try\<close> suite (by the probe, the extraction, a frame or the encoder) ends up as
  the job's record, with its description as message, and the model is back on the CPU.\<close>

lemma process_video_converts_exception:
  assumes "try_suite ev video_path method video_id s = (Raises e, fd, s1)"
  shows "processing_status (snd (process_video ev video_path method video_id s)) video_id
           = Some (rec_error (str_exn e))"
  using assms by (simp add: process_video_def)

lemma finally_clause_on_gpu:
  "on_gpu (snd (finally_clause method fd s))
     = (if method = ''inspyrenet'' \<and> fst (finally_clause method fd s) = None then False else on_gpu s)"
proof (cases fd)
  case None
  then show ?thesis by (simp add: finally_clause_unbound)
next
  case (Some d)
  then show ?thesis
    by (cases "frame_dirs s d") (simp_all add: finally_clause_missing_dir finally_clause_existing_dir)
qed

text \<open>The model is back on the CPU whenever the suite raised, and whenever no
  exception leaves \<^verbatim>\<open>process_video\<close>.\<close>

lemma accelerator_released_otherwise:
  assumes "(\<exists>e fd s1. try_suite ev video_path ''inspyrenet'' video_id s = (Raises e, fd, s1))
         \<or> fst (process_video ev video_path ''inspyrenet'' video_id s) = None"
  shows "\<not> on_gpu (snd (process_video ev video_path ''inspyrenet'' video_id s))"
proof (cases "try_suite ev video_path ''inspyrenet'' video_id s")
  case (fields fl fd s1)
  show ?thesis
  proof (cases fl)
    case (Raises e)
    with fields show ?thesis
      by (simp add: process_video_def finally_clause_on_gpu)
  next
    case Returns
    with fields assms show ?thesis
      by (simp add: process_video_def finally_clause_on_gpu)
  qed
qed

end
